theory Spec2Isabelle
  imports Main
begin

section \<open>Python strings\<close>

text \<open>
  A Python \<open>str\<close> is modelled as a \<open>string\<close>; one \<open>char\<close> stands for one code
  point, so the model covers texts over the first 256 code points.
\<close>

definition startswith :: "string \<Rightarrow> string \<Rightarrow> bool" where
  "startswith s p = (take (length p) s = p)"

text \<open>The characters that \<open>str.isspace\<close> accepts below code point 256.\<close>

definition is_space :: "char \<Rightarrow> bool" where
  "is_space c = (c \<in> set [CHR 0x09, CHR 0x0A, CHR 0x0B, CHR 0x0C, CHR 0x0D,
     CHR 0x1C, CHR 0x1D, CHR 0x1E, CHR 0x1F, CHR 0x20, CHR 0x85, CHR 0xA0])"

definition rstrip :: "string \<Rightarrow> string" where
  "rstrip s = rev (dropWhile is_space (rev s))"

fun join :: "string \<Rightarrow> string list \<Rightarrow> string" where
  "join sep [] = []"
| "join sep [x] = x"
| "join sep (x # y # ys) = x @ sep @ join sep (y # ys)"

text \<open>
  \<open>str.replace\<close>: the occurrences of \<open>old\<close> are replaced from left to right, without
  overlap; an empty \<open>old\<close> matches before every character and at the end.
\<close>

function str_replace :: "string \<Rightarrow> string \<Rightarrow> string \<Rightarrow> string" where
  "str_replace old new s =
     (if old = [] then new @ concat (map (\<lambda>c. c # new) s)
      else if s = [] then []
      else if startswith s old then new @ str_replace old new (drop (length old) s)
      else hd s # str_replace old new (tl s))"
  by pat_completeness auto
termination
  by (relation "measure (\<lambda>(old, new, s). length s)") auto

section \<open>The character-reference pattern\<close>

definition is_digit :: "char \<Rightarrow> bool" where
  "is_digit c = (c \<in> set ''0123456789'')"

definition is_hex :: "char \<Rightarrow> bool" where
  "is_hex c = (c \<in> set ''0123456789abcdefABCDEF'')"

text \<open>The class \<open>[^\t\n\f <&#;]\<close>.\<close>

definition is_name_char :: "char \<Rightarrow> bool" where
  "is_name_char c = (c \<notin> set [CHR 0x09, CHR 0x0A, CHR 0x0C, CHR '' '', CHR ''<'',
     CHR ''&'', CHR ''#'', CHR '';''])"

text \<open>
  One or more characters of a class, then a semicolon: the length of the match. The
  repetition is greedy, and giving characters back cannot help, since the next character
  is then of the class and not a semicolon.
\<close>

definition closed_run :: "(char \<Rightarrow> bool) \<Rightarrow> string \<Rightarrow> nat option" where
  "closed_run ok s =
     (let run = takeWhile ok s
      in if run \<noteq> [] \<and> startswith (drop (length run) s) '';''
         then Some (length run + 1) else None)"

text \<open>
  The pattern that \<open>__init__\<close> compiles,
  \<^verbatim>\<open>&(#[0-9]+;|#[xX][0-9a-fA-F]+;|[^\t\n\f <&#;]{1,32};)\<close>,
  tried on the text after an ampersand: the length of group 1 when it matches. The
  alternatives are tried in order.
\<close>

definition patched_pattern :: "string \<Rightarrow> nat option" where
  "patched_pattern s =
     (case (case s of
              c # ds \<Rightarrow> if c = CHR ''#'' then map_option Suc (closed_run is_digit ds) else None
            | [] \<Rightarrow> None) of
        Some n \<Rightarrow> Some n
      | None \<Rightarrow>
         (case (case s of
                  c # x # hs \<Rightarrow>
                    if c = CHR ''#'' \<and> (x = CHR ''x'' \<or> x = CHR ''X'')
                    then map_option (\<lambda>n. n + 2) (closed_run is_hex hs) else None
                | _ \<Rightarrow> None) of
            Some n \<Rightarrow> Some n
          | None \<Rightarrow>
             (let run = takeWhile is_name_char s
              in if 1 \<le> length run \<and> length run \<le> 32
                    \<and> startswith (drop (length run) s) '';''
                 then Some (length run + 1) else None)))"

section \<open>Exceptions\<close>

datatype error = IndexError | AttributeError | ClassNotFound | OtherError

section \<open>Tokens\<close>

text \<open>
  A token object: its class name and the attributes the rules of the renderer read.
  A token class that lacks an attribute is built with the empty string there.
\<close>

datatype token = Token
  (kind: string) (language: string) (arguments: string) (content: string)
  (raw: string) (target: string) (name: string) (children: "token list")

section \<open>The world outside the renderer\<close>

text \<open>
  The process-wide pattern \<open>html._charref\<close>: the one of the standard library, or the one
  the constructor installs.
\<close>

datatype charref = Stdlib_charref | Patched_charref

record globals =
  html_charref :: charref
  span_token_types :: "string list"
  block_token_types :: "string list"

text \<open>The methods of \<open>HTMLRenderer\<close> that the inherited tree walk calls back.\<close>

datatype rule = Render_block_code | Render_code_fence | Render_directive
  | Render_front_matter | Render_line_comment | Render_block_break | Render_target
  | Render_role | Render_math

text \<open>
  The inherited generic renderer (the base class, which is not part of this repository)
  is a parameter: its escaping function, which reads the process-wide pattern, its
  block-code rule, and its document rule, which renders the children of the root
  through the methods of the renderer it is given.
\<close>

record base =
  escape_html :: "charref \<Rightarrow> string \<Rightarrow> string"
  super_render_block_code :: "charref \<Rightarrow> token \<Rightarrow> error + string"
  super_render_document :: "(rule \<Rightarrow> token \<Rightarrow> error + string) \<Rightarrow> token \<Rightarrow> error + string"

text \<open>
  The highlighting capability (\<open>highlight\<close> with \<open>get_lexer_by_name\<close> and
  \<open>HtmlFormatter\<close>; \<open>Inl ClassNotFound\<close> when the language has no lexer), its style
  rules for \<open>.highlight\<close>, and the bundled stylesheet \<open>myst_standalone.css\<close>.
\<close>

record env =
  inherited :: base
  highlight :: "string \<Rightarrow> string \<Rightarrow> error + string"
  style_defs :: string
  standalone_css :: string

section \<open>The renderer\<close>

text \<open>The keyword arguments of the constructor.\<close>

record config =
  add_mathjax :: bool
  show_comments :: bool
  show_front_matter :: bool
  use_pygments :: bool
  as_standalone :: bool
  myst_css :: "string option"
  pygments_css :: "string option"

text \<open>
  The renderer object: the configuration, and the two attributes that the constructor
  sets besides it.
\<close>

record renderer = config +
  suppress_ptag_stack :: "bool list"
  stdlib_charref :: charref

text \<open>
  \<open>HTMLRenderer.__init__\<close>: stores the configuration, registers the token classes of the
  two token modules (given by their names), saves the current pattern and installs the
  patched one. It returns the new renderer and the new process-wide state.
\<close>

definition HTMLRenderer_init ::
  "config \<Rightarrow> string list \<Rightarrow> string list \<Rightarrow> globals \<Rightarrow> renderer \<times> globals" where
  "HTMLRenderer_init c span_mod block_mod g =
   (\<lparr>add_mathjax = add_mathjax c, show_comments = show_comments c,
      show_front_matter = show_front_matter c, use_pygments = use_pygments c,
      as_standalone = as_standalone c, myst_css = myst_css c,
      pygments_css = pygments_css c, suppress_ptag_stack = [False],
      stdlib_charref = html_charref g\<rparr>,
    g\<lparr>span_token_types := span_mod, block_token_types := block_mod,
      html_charref := Patched_charref\<rparr>)"

text \<open>\<open>render_raw_text\<close>, inherited: the escaped content of the token.\<close>

definition render_raw_text :: "env \<Rightarrow> globals \<Rightarrow> token \<Rightarrow> string" where
  "render_raw_text e g t = escape_html (inherited e) (html_charref g) (content t)"

definition pygments_highlight :: "env \<Rightarrow> string \<Rightarrow> string \<Rightarrow> error + string option" where
  "pygments_highlight e code lang =
     (case highlight e code lang of
        Inr h \<Rightarrow> Inr (Some h)
      | Inl ClassNotFound \<Rightarrow> Inr None
      | Inl err \<Rightarrow> Inl err)"

definition get_pygments_css :: "env \<Rightarrow> string" where
  "get_pygments_css e = style_defs e"

definition get_syntax_css :: "env \<Rightarrow> string" where
  "get_syntax_css e = standalone_css e"

definition minimal_html_page :: "string \<Rightarrow> string \<Rightarrow> string \<Rightarrow> string \<Rightarrow> string" where
  \<open>minimal_html_page body css title lang =
     ''<!DOCTYPE html>\<newline><html lang="'' @ lang @ ''">\<newline>\<newline><head>\<newline>''
     @ ''<meta charset="utf-8">\<newline><title>'' @ title @ ''</title>\<newline><style>\<newline>''
     @ css @ ''\<newline></style>\<newline></head>\<newline><body>\<newline>''
     @ body @ ''\<newline></body>\<newline></html>\<newline>''\<close>

definition render_block_code :: "env \<Rightarrow> renderer \<Rightarrow> globals \<Rightarrow> token \<Rightarrow> error + string" where
  \<open>render_block_code e r g t =
     (if language t = [] \<or> \<not> use_pygments r
      then super_render_block_code (inherited e) (html_charref g) t
      else (case children t of
              [] \<Rightarrow> Inl IndexError
            | c # _ \<Rightarrow>
               (case pygments_highlight e (content c) (language t) of
                  Inl err \<Rightarrow> Inl err
                | Inr None \<Rightarrow> super_render_block_code (inherited e) (html_charref g) t
                | Inr (Some highlighted) \<Rightarrow>
                    Inr (join ''\<newline>''
                      [''<div class="highlight-'' @ language t @ ''">'',
                       rstrip highlighted,
                       ''</div>'']))))\<close>

definition render_directive :: "token \<Rightarrow> error + string" where
  \<open>render_directive t =
     (case children t of
        [] \<Rightarrow> Inl IndexError
      | c # _ \<Rightarrow>
          Inr (''<div class="myst-directive">''
            @ ''&#39;'' @ ''&#39;'' @ ''&#39;''
            @ ''<span class="myst-dir-name">'' @ language t @ ''</span>&nbsp\<newline>''
            @ ''<span class="myst-dir-args">'' @ arguments t @ ''</span>\<newline>''
            @ ''<span class="myst-dir-content"><pre><code>'' @ content c
            @ ''</code></pre></span>\<newline>''
            @ ''&#39;'' @ ''&#39;'' @ ''&#39;''
            @ ''</div>''))\<close>

definition render_code_fence :: "env \<Rightarrow> renderer \<Rightarrow> globals \<Rightarrow> token \<Rightarrow> error + string" where
  "render_code_fence e r g t =
     (if language t \<noteq> [] \<and> startswith (language t) ''{''
      then render_directive t
      else render_block_code e r g t)"

definition render_front_matter :: "env \<Rightarrow> renderer \<Rightarrow> globals \<Rightarrow> token \<Rightarrow> error + string" where
  \<open>render_front_matter e r g t =
     (if \<not> show_front_matter r then Inr ''''
      else if use_pygments r then
        (case pygments_highlight e (content t) ''yaml'' of
           Inl err \<Rightarrow> Inl err
         | Inr None \<Rightarrow> Inl AttributeError
         | Inr (Some highlighted) \<Rightarrow>
             Inr (''<div class="highlight-yaml myst-front-matter">\<newline>''
               @ rstrip highlighted @ ''\<newline></div>''))
      else
        Inr (''<div class="myst-front-matter">''
          @ ''<pre><code class="language-yaml">''
          @ escape_html (inherited e) (html_charref g) (content t)
          @ ''</code></pre>''
          @ ''</div>''))\<close>

definition render_line_comment :: "env \<Rightarrow> renderer \<Rightarrow> globals \<Rightarrow> token \<Rightarrow> string" where
  \<open>render_line_comment e r g t =
     (if \<not> show_comments r
      then ''<!-- '' @ escape_html (inherited e) (html_charref g) (content t) @ '' -->''
      else ''<div class="myst-block-comment"><p>''
        @ escape_html (inherited e) (html_charref g) (raw t) @ ''</p></div>'')\<close>

definition render_block_break :: "env \<Rightarrow> globals \<Rightarrow> token \<Rightarrow> string" where
  \<open>render_block_break e g t =
     ''<!-- myst-block-data '' @ escape_html (inherited e) (html_charref g) (content t)
     @ '' -->\<newline><hr class="myst-block-break" />''\<close>

definition render_target :: "env \<Rightarrow> globals \<Rightarrow> token \<Rightarrow> string" where
  \<open>render_target e g t =
     ''<a class="myst-target" href="#''
     @ escape_html (inherited e) (html_charref g) (target t)
     @ ''" title="Permalink to here">(''
     @ escape_html (inherited e) (html_charref g) (target t) @ '')=</a>''\<close>

definition render_role :: "env \<Rightarrow> globals \<Rightarrow> token \<Rightarrow> error + string" where
  \<open>render_role e g t =
     (case children t of
        [] \<Rightarrow> Inl IndexError
      | c # _ \<Rightarrow>
          Inr (''<span class="myst-role">''
            @ ''<span class="myst-role-name">{'' @ name t @ ''}</span>''
            @ ''<span class="myst-role-content">'' @ ''&#39;'' @ render_raw_text e g c
            @ ''&#39;'' @ ''</span>''
            @ ''</span>''))\<close>

definition render_math :: "env \<Rightarrow> globals \<Rightarrow> token \<Rightarrow> string" where
  "render_math e g t =
     (if startswith (content t) ''$$'' then render_raw_text e g t
      else ''$'' @ render_raw_text e g t @ ''$'')"

text \<open>The methods by name, as the inherited tree walk reaches them.\<close>

fun render_method :: "env \<Rightarrow> renderer \<Rightarrow> globals \<Rightarrow> rule \<Rightarrow> token \<Rightarrow> error + string" where
  "render_method e r g Render_block_code t = render_block_code e r g t"
| "render_method e r g Render_code_fence t = render_code_fence e r g t"
| "render_method e r g Render_directive t = render_directive t"
| "render_method e r g Render_front_matter t = render_front_matter e r g t"
| "render_method e r g Render_line_comment t = Inr (render_line_comment e r g t)"
| "render_method e r g Render_block_break t = Inr (render_block_break e g t)"
| "render_method e r g Render_target t = Inr (render_target e g t)"
| "render_method e r g Render_role t = render_role e g t"
| "render_method e r g Render_math t = Inr (render_math e g t)"

definition mathjax_script :: string where
  \<open>mathjax_script =
     ''<script src=''
     @ ''"https://cdnjs.cloudflare.com/ajax/libs/mathjax/2.7.0/MathJax.js''
     @ ''?config=TeX-MML-AM_CHTML"></script>\<newline>''\<close>

definition render_document :: "env \<Rightarrow> renderer \<Rightarrow> globals \<Rightarrow> token \<Rightarrow> error + string" where
  "render_document e r g t =
     (case super_render_document (inherited e) (render_method e r g) t of
        Inl err \<Rightarrow> Inl err
      | Inr body0 \<Rightarrow>
          (let body = (if add_mathjax r then body0 @ mathjax_script else body0)
           in if \<not> as_standalone r then Inr body
              else
                (let css0 = (case myst_css r of None \<Rightarrow> get_syntax_css e | Some c \<Rightarrow> c);
                     css = (if use_pygments r
                            then css0 @ (case pygments_css r of
                                           None \<Rightarrow> get_pygments_css e | Some c \<Rightarrow> c)
                            else css0)
                 in Inr (minimal_html_page body css ''Standalone HTML'' ''en''))))"

section \<open>The inherited rules and the standard library\<close>

text \<open>
  What the renderer inherits or imports is not among the files of this repository. The
  definitions of this section follow the Python standard library (\<open>html.escape\<close>,
  \<open>html.unescape\<close>) and the generic HTML renderer the class extends; the theorems
  take the inherited renderer as a parameter and use this section where a concrete one
  is needed.
\<close>

text \<open>The pattern of the standard library: every alternative may end without a semicolon.\<close>

definition open_run :: "(char \<Rightarrow> bool) \<Rightarrow> string \<Rightarrow> nat option" where
  "open_run ok s =
     (let run = takeWhile ok s
      in if run = [] then None
         else if startswith (drop (length run) s) '';'' then Some (length run + 1)
         else Some (length run))"

definition stdlib_pattern :: "string \<Rightarrow> nat option" where
  "stdlib_pattern s =
     (case (case s of
              c # ds \<Rightarrow> if c = CHR ''#'' then map_option Suc (open_run is_digit ds) else None
            | [] \<Rightarrow> None) of
        Some n \<Rightarrow> Some n
      | None \<Rightarrow>
         (case (case s of
                  c # x # hs \<Rightarrow>
                    if c = CHR ''#'' \<and> (x = CHR ''x'' \<or> x = CHR ''X'')
                    then map_option (\<lambda>n. n + 2) (open_run is_hex hs) else None
                | _ \<Rightarrow> None) of
            Some n \<Rightarrow> Some n
          | None \<Rightarrow>
             (let run = take 32 (takeWhile is_name_char s)
              in if run = [] then None
                 else if startswith (drop (length run) s) '';'' then Some (length run + 1)
                 else Some (length run))))"

fun charref_pattern :: "charref \<Rightarrow> string \<Rightarrow> nat option" where
  "charref_pattern Stdlib_charref = stdlib_pattern"
| "charref_pattern Patched_charref = patched_pattern"

text \<open>
  \<open>_charref.sub(_replace_charref, s)\<close>: every match of the pattern, from left to right,
  is replaced by what \<open>repl\<close> makes of its group 1.
\<close>

function charref_sub :: "(string \<Rightarrow> nat option) \<Rightarrow> (string \<Rightarrow> string) \<Rightarrow> string \<Rightarrow> string" where
  "charref_sub pat repl [] = []"
| "charref_sub pat repl (c # cs) =
     (if c = CHR ''&''
      then (case pat cs of
              Some n \<Rightarrow> repl (take n cs) @ charref_sub pat repl (drop n cs)
            | None \<Rightarrow> c # charref_sub pat repl cs)
      else c # charref_sub pat repl cs)"
  by pat_completeness auto
termination
  by (relation "measure (\<lambda>(pat, repl, s). length s)") auto

definition html_unescape :: "(string \<Rightarrow> nat option) \<Rightarrow> (string \<Rightarrow> string) \<Rightarrow> string \<Rightarrow> string" where
  "html_unescape pat repl s = (if CHR ''&'' \<notin> set s then s else charref_sub pat repl s)"

definition html_escape :: "string \<Rightarrow> string" where
  \<open>html_escape s =
     str_replace [CHR 0x27] ''&#x27;''
       (str_replace ''"'' ''&quot;''
         (str_replace ''>'' ''&gt;''
           (str_replace ''<'' ''&lt;''
             (str_replace ''&'' ''&amp;'' s))))\<close>

text \<open>
  An excerpt of \<open>_replace_charref\<close>, for the examples: the names \<open>amp\<close>, \<open>lt\<close>,
  \<open>gt\<close> and \<open>quot\<close>, with and without a semicolon, and the two numeric references of
  the apostrophe are decoded as the library decodes them. Any other group is returned as
  it was written; the library does so only for a name of which no prefix is in its table.
  The theorems take the replacement function as a parameter.
\<close>

definition replace_charref_basic :: "string \<Rightarrow> string" where
  \<open>replace_charref_basic s =
     (if s = ''amp;'' then ''&''
      else if s = ''lt;'' then ''<''
      else if s = ''gt;'' then ''>''
      else if s = ''quot;'' then ''"''
      else if s = ''#39;'' \<or> s = ''#x27;'' then [CHR 0x27]
      else if s = ''amp'' then ''&''
      else if s = ''lt'' then ''<''
      else if s = ''gt'' then ''>''
      else if s = ''quot'' then ''"''
      else CHR ''&'' # s)\<close>

text \<open>
  The generic renderer's \<open>escape_html\<close>: references are decoded, the result is encoded by
  \<open>html.escape\<close>, and the apostrophe is put back.
\<close>

definition generic_escape_html :: "(string \<Rightarrow> string) \<Rightarrow> charref \<Rightarrow> string \<Rightarrow> string" where
  "generic_escape_html repl p raw_text =
     str_replace ''&#x27;'' [CHR 0x27]
       (html_escape (html_unescape (charref_pattern p) repl raw_text))"

text \<open>The generic renderer's \<open>render_block_code\<close>.\<close>

definition generic_render_block_code ::
  "(string \<Rightarrow> string) \<Rightarrow> charref \<Rightarrow> token \<Rightarrow> error + string" where
  \<open>generic_render_block_code repl p t =
     (let attr = (if language t \<noteq> []
                  then '' class="'' @ ''language-'' @ generic_escape_html repl p (language t)
                    @ ''"''
                  else [])
      in case children t of
           [] \<Rightarrow> Inl IndexError
         | c # _ \<Rightarrow> Inr (''<pre><code'' @ attr @ ''>'' @ html_escape (content c)
             @ ''</code></pre>''))\<close>

text \<open>
  The generic renderer's \<open>render_document\<close>, for the examples: each child is rendered
  by the method registered for its class, the results are joined by newlines, and a
  newline ends a non-empty body. It covers the trees whose nodes are of the token classes
  this renderer has a rule for; a node of another class, which the library renders by a
  rule of its own, gives \<open>OtherError\<close> here. The theorems take the document rule as a
  parameter.
\<close>

definition method_of_kind :: "string \<Rightarrow> rule option" where
  "method_of_kind k =
     map_of [(''BlockCode'', Render_block_code), (''CodeFence'', Render_code_fence),
       (''FrontMatter'', Render_front_matter), (''LineComment'', Render_line_comment),
       (''BlockBreak'', Render_block_break), (''Target'', Render_target),
       (''Role'', Render_role), (''Math'', Render_math)] k"

fun render_each :: "(token \<Rightarrow> error + string) \<Rightarrow> token list \<Rightarrow> error + string list" where
  "render_each f [] = Inr []"
| "render_each f (t # ts) =
     (case f t of
        Inl err \<Rightarrow> Inl err
      | Inr x \<Rightarrow> (case render_each f ts of Inl err \<Rightarrow> Inl err | Inr xs \<Rightarrow> Inr (x # xs)))"

definition generic_render_document ::
  "(rule \<Rightarrow> token \<Rightarrow> error + string) \<Rightarrow> token \<Rightarrow> error + string" where
  "generic_render_document methods t =
     (case render_each
             (\<lambda>c. case method_of_kind (kind c) of
                     None \<Rightarrow> Inl OtherError
                   | Some m \<Rightarrow> methods m c)
             (children t) of
        Inl err \<Rightarrow> Inl err
      | Inr parts \<Rightarrow>
          (let inner = join ''\<newline>'' parts
           in Inr (if inner \<noteq> [] then inner @ ''\<newline>'' else [])))"

definition generic_renderer :: "(string \<Rightarrow> string) \<Rightarrow> base" where
  "generic_renderer repl =
     \<lparr>escape_html = generic_escape_html repl,
      super_render_block_code = generic_render_block_code repl,
      super_render_document = generic_render_document\<rparr>"






section \<open>Example inputs\<close>

definition raw_text_token :: "string \<Rightarrow> token" where
  "raw_text_token c = Token ''RawText'' [] [] c [] [] [] []"

definition math_token :: "string \<Rightarrow> token" where
  "math_token c = Token ''Math'' [] [] c [] [] [] []"

definition fence_token :: "string \<Rightarrow> string \<Rightarrow> token list \<Rightarrow> token" where
  "fence_token lang args cs = Token ''CodeFence'' lang args [] [] [] [] cs"

definition front_matter_token :: "string \<Rightarrow> token" where
  "front_matter_token c = Token ''FrontMatter'' [] [] c [] [] [] []"

definition block_break_token :: "string \<Rightarrow> token" where
  "block_break_token c = Token ''BlockBreak'' [] [] c [] [] [] []"

definition document_token :: "token list \<Rightarrow> token" where
  "document_token cs = Token ''Document'' [] [] [] [] [] [] cs"

text \<open>A highlighting capability that knows no language, and one that knows only Python.\<close>

definition no_lexer :: "string \<Rightarrow> string \<Rightarrow> error + string" where
  "no_lexer code lang = Inl ClassNotFound"

definition python_lexer :: "string \<Rightarrow> string \<Rightarrow> error + string" where
  \<open>python_lexer code lang =
     (if lang = ''python''
      then Inr (''<div class="highlight"><pre>'' @ html_escape code @ ''</pre></div>\<newline>'')
      else Inl ClassNotFound)\<close>

text \<open>A capability with lexers for YAML and Python.\<close>

definition yaml_python_lexer :: "string \<Rightarrow> string \<Rightarrow> error + string" where
  \<open>yaml_python_lexer code lang =
     (if lang = ''yaml'' \<or> lang = ''python''
      then Inr (''<div class="highlight"><pre>'' @ html_escape code @ ''</pre></div>\<newline>'')
      else Inl ClassNotFound)\<close>

definition example_env :: "(string \<Rightarrow> string \<Rightarrow> error + string) \<Rightarrow> env" where
  "example_env hl =
     \<lparr>inherited = generic_renderer replace_charref_basic, highlight = hl,
      style_defs = ''.highlight .k { color: #008000 }'',
      standalone_css = ''.myst-target { color: gray }''\<rparr>"

text \<open>The defaults of the constructor, and the process before any renderer is built.\<close>

definition default_config :: config where
  "default_config =
     \<lparr>add_mathjax = False, show_comments = False, show_front_matter = True,
      use_pygments = False, as_standalone = False, myst_css = None, pygments_css = None\<rparr>"

definition stdlib_globals :: globals where
  "stdlib_globals =
     \<lparr>html_charref = Stdlib_charref, span_token_types = [], block_token_types = []\<rparr>"

definition default_renderer :: renderer where
  "default_renderer = fst (HTMLRenderer_init default_config [] [] stdlib_globals)"

definition patched_globals :: globals where
  "patched_globals = snd (HTMLRenderer_init default_config [] [] stdlib_globals)"

section \<open>Notions used in the statements\<close>

text \<open>
  What \<open>html.escape\<close>, followed by the generic renderer's putting back of the apostrophe,
  writes for one character.
\<close>

definition escape_char :: "char \<Rightarrow> string" where
  \<open>escape_char c =
     (if c = CHR ''&'' then ''&amp;''
      else if c = CHR ''<'' then ''&lt;''
      else if c = CHR ''>'' then ''&gt;''
      else if c = CHR ''"'' then ''&quot;''
      else [c])\<close>

text \<open>A replacement function that decodes the four references the escaping writes.\<close>

definition decodes_written :: "(string \<Rightarrow> string) \<Rightarrow> bool" where
  \<open>decodes_written repl =
     (repl ''amp;'' = ''&'' \<and> repl ''lt;'' = ''<'' \<and> repl ''gt;'' = ''>''
      \<and> repl ''quot;'' = ''"'')\<close>

text \<open>The number of positions of a text at which a pattern starts.\<close>

fun occurrences :: "string \<Rightarrow> string \<Rightarrow> nat" where
  "occurrences p [] = (if p = [] then 1 else 0)"
| "occurrences p (x # xs) = (if startswith (x # xs) p then 1 else 0) + occurrences p xs"

section \<open>Facts about replacing, escaping and unescaping\<close>

declare str_replace.simps [simp del]

lemma str_replace_Nil: "old \<noteq> [] \<Longrightarrow> str_replace old new [] = []"
  by (simp add: str_replace.simps)

lemma str_replace_Cons:
  "old \<noteq> [] \<Longrightarrow> str_replace old new (x # xs) =
     (if startswith (x # xs) old then new @ str_replace old new (drop (length old) (x # xs))
      else x # str_replace old new xs)"
  by (subst str_replace.simps) simp

lemma str_replace_single:
  "str_replace [c] new s = concat (map (\<lambda>x. if x = c then new else [x]) s)"
  by (induction s) (simp_all add: str_replace_Nil str_replace_Cons startswith_def)

lemma html_escape_chars:
  \<open>html_escape s = concat (map (\<lambda>c.
     if c = CHR ''&'' then ''&amp;''
      else if c = CHR ''<'' then ''&lt;''
      else if c = CHR ''>'' then ''&gt;''
      else if c = CHR ''"'' then ''&quot;''
      else if c = CHR 0x27 then ''&#x27;''
      else [c]) s)\<close>
  by (induction s) (simp_all add: html_escape_def str_replace_single)

lemma write_escaped:
  "str_replace ''&#x27;'' [CHR 0x27] (html_escape s) = concat (map escape_char s)"
  by (induction s)
    (simp_all add: html_escape_chars str_replace_Nil str_replace_Cons startswith_def escape_char_def)

lemma charref_sub_no_amp: "CHR ''&'' \<notin> set s \<Longrightarrow> charref_sub pat repl s = s"
  by (induction s) auto

lemma html_unescape_sub: "html_unescape pat repl s = charref_sub pat repl s"
  by (simp add: html_unescape_def charref_sub_no_amp)

lemma generic_escape_html_chars:
  "generic_escape_html repl p s = concat (map escape_char (charref_sub (charref_pattern p) repl s))"
  by (simp add: generic_escape_html_def write_escaped html_unescape_sub)

lemma patched_written:
  "patched_pattern (''amp;'' @ rest) = Some 4"
  "patched_pattern (''lt;'' @ rest) = Some 3"
  "patched_pattern (''gt;'' @ rest) = Some 3"
  "patched_pattern (''quot;'' @ rest) = Some 5"
  by (simp_all add: patched_pattern_def is_name_char_def startswith_def)

lemma stdlib_written:
  "stdlib_pattern (''amp;'' @ rest) = Some 4"
  "stdlib_pattern (''lt;'' @ rest) = Some 3"
  "stdlib_pattern (''gt;'' @ rest) = Some 3"
  "stdlib_pattern (''quot;'' @ rest) = Some 5"
  by (simp_all add: stdlib_pattern_def is_name_char_def startswith_def)

lemma charref_sub_escaped:
  assumes "decodes_written repl"
  shows "charref_sub (charref_pattern p) repl (concat (map escape_char s)) = s"
proof (induction s)
  case Nil
  show ?case by simp
next
  case (Cons c s)
  from assms Cons show ?case
    by (cases p)
      (simp_all add: escape_char_def decodes_written_def patched_written [simplified]
        stdlib_written [simplified])
qed

lemma generic_escape_html_idem:
  "decodes_written repl \<Longrightarrow>
   generic_escape_html repl p (generic_escape_html repl p s) = generic_escape_html repl p s"
  by (simp add: generic_escape_html_chars charref_sub_escaped)

lemma escape_chars_plain:
  \<open>set s \<inter> set ''&<>"'' = {} \<Longrightarrow> concat (map escape_char s) = s\<close>
  by (induction s) (auto simp: escape_char_def)

lemma generic_escape_html_plain:
  \<open>set s \<inter> set ''&<>"'' = {} \<Longrightarrow> generic_escape_html repl p s = s\<close>
  by (simp add: generic_escape_html_chars charref_sub_no_amp escape_chars_plain)

lemma generic_escape_html_dollars:
  "startswith s ''$$'' \<Longrightarrow> startswith (generic_escape_html repl p s) ''$$''"
  by (cases s; cases "tl s")
    (auto simp: startswith_def generic_escape_html_chars escape_char_def)

lemma decodes_written_basic: "decodes_written replace_charref_basic"
  by (simp add: decodes_written_def replace_charref_basic_def)

section \<open>Facts about the patched pattern\<close>






section \<open>Facts about counting occurrences\<close>

lemma startswith_append_sep:
  assumes "c \<notin> set p"
  shows "startswith (xs @ c # ys) p = startswith xs p"
proof (cases "length p \<le> length xs")
  case True
  then show ?thesis by (simp add: startswith_def)
next
  case False
  then have len: "length xs < length p" by simp
  have "take (length p) (xs @ c # ys) \<noteq> p"
  proof
    assume eq: "take (length p) (xs @ c # ys) = p"
    have "p ! length xs = take (length p) (xs @ c # ys) ! length xs" using eq by simp
    also have "\<dots> = c" using len by (simp add: nth_append)
    finally have "c \<in> set p" using len nth_mem [of "length xs" p] by simp
    with assms show False by simp
  qed
  moreover have "take (length p) xs \<noteq> p"
  proof
    assume "take (length p) xs = p"
    then have "length (take (length p) xs) = length p" by simp
    with len show False by simp
  qed
  ultimately show ?thesis by (simp add: startswith_def)
qed

lemma occurrences_split:
  assumes "p \<noteq> []" and "c \<notin> set p"
  shows "occurrences p (xs @ c # ys) = occurrences p xs + occurrences p ys"
proof (induction xs)
  case Nil
  have "\<not> startswith (c # ys) p"
    using assms by (cases p) (auto simp: startswith_def)
  with assms show ?case by simp
next
  case (Cons x xs)
  have "startswith ((x # xs) @ c # ys) p = startswith (x # xs) p"
    using assms(2) by (rule startswith_append_sep)
  with Cons show ?case by simp
qed


lemma render_method_as_standalone:
  "render_method e (r\<lparr>as_standalone := b\<rparr>) g m t = render_method e r g m t"
  by (cases m)
    (simp_all add: render_block_code_def render_code_fence_def render_front_matter_def
      render_line_comment_def)


lemma page_occurrences:
  assumes "p \<noteq> []" and "CHR ''\<newline>'' \<notin> set p"
  shows \<open>occurrences p (minimal_html_page body css title lang) =
    occurrences p ''<!DOCTYPE html>'' + (occurrences p (''<html lang="'' @ lang @ ''">'')
    + (occurrences p ''<head>'' + (occurrences p ''<meta charset="utf-8">''
    + (occurrences p (''<title>'' @ title @ ''</title>'') + (occurrences p ''<style>''
    + (occurrences p css + (occurrences p ''</style>'' + (occurrences p ''</head>''
    + (occurrences p ''<body>'' + (occurrences p body + (occurrences p ''</body>''
    + occurrences p ''</html>'')))))))))))\<close>
proof -
  have split: "\<And>xs ys. occurrences p (xs @ CHR ''\<newline>'' # ys) = occurrences p xs + occurrences p ys"
    using assms by (rule occurrences_split)
  have nil: "occurrences p [] = 0" using assms by simp
  have \<open>minimal_html_page body css title lang =
    ''<!DOCTYPE html>'' @ CHR ''\<newline>'' # ((''<html lang="'' @ lang @ ''">'') @ CHR ''\<newline>'' #
      ([] @ CHR ''\<newline>'' # (''<head>'' @ CHR ''\<newline>'' # (''<meta charset="utf-8">'' @ CHR ''\<newline>'' #
      ((''<title>'' @ title @ ''</title>'') @ CHR ''\<newline>'' # (''<style>'' @ CHR ''\<newline>'' #
      (css @ CHR ''\<newline>'' # (''</style>'' @ CHR ''\<newline>'' # (''</head>'' @ CHR ''\<newline>'' #
      (''<body>'' @ CHR ''\<newline>'' # (body @ CHR ''\<newline>'' # (''</body>'' @ CHR ''\<newline>'' #
      (''</html>'' @ CHR ''\<newline>'' # [])))))))))))))\<close>
    by (simp add: minimal_html_page_def)
  then show ?thesis
    by (simp only: split nil add_0_right add_0_left)
qed

lemma standalone_page_tags:
  assumes "occurrences ''<style>'' css = 0" and "occurrences ''<style>'' body = 0"
    and "occurrences ''<body>'' css = 0" and "occurrences ''<body>'' body = 0"
  shows "occurrences ''<style>'' (minimal_html_page body css ''Standalone HTML'' ''en'') = 1"
    and "occurrences ''<body>'' (minimal_html_page body css ''Standalone HTML'' ''en'') = 1"
  using assms by (simp_all add: page_occurrences startswith_def)


section \<open>Unfolding the examples\<close>

lemmas example_defs = example_env_def generic_renderer_def default_renderer_def
  patched_globals_def default_config_def stdlib_globals_def HTMLRenderer_init_def
  raw_text_token_def math_token_def fence_token_def front_matter_token_def
  block_break_token_def
  document_token_def no_lexer_def python_lexer_def yaml_python_lexer_def

lemmas rule_defs = render_block_code_def render_code_fence_def render_directive_def
  render_front_matter_def render_line_comment_def render_block_break_def
  render_target_def render_role_def render_math_def render_raw_text_def
  pygments_highlight_def get_syntax_css_def get_pygments_css_def

lemmas generic_defs = generic_render_document_def generic_render_block_code_def
  method_of_kind_def generic_escape_html_chars escape_char_def html_escape_chars

section \<open>What the rules read\<close>





section \<open>The code fence: directive or block code\<close>

text \<open>
  Claim C1. A fenced-code token whose language tag is non-empty and starts with an opening
  brace is rendered by the directive rule; every other one (an empty tag, or a tag that
  starts with another character) is rendered by the block-code rule. The choice reads the
  language tag only: two tokens with the same tag take the same rule, whatever their
  content, children and other attributes are.
\<close>

theorem render_code_fence_dispatch:
  "((\<exists>rest. language t = CHR ''{'' # rest) \<longrightarrow>
        render_code_fence e r g t = render_directive t)
   \<and> ((\<forall>rest. language t \<noteq> CHR ''{'' # rest) \<longrightarrow>
        render_code_fence e r g t = render_block_code e r g t)
   \<and> (language t' = language t \<longrightarrow>
        (render_code_fence e r g t = render_directive t
           \<and> render_code_fence e r g t' = render_directive t')
        \<or> (render_code_fence e r g t = render_block_code e r g t
           \<and> render_code_fence e r g t' = render_block_code e r g t'))"
  by (cases "language t") (auto simp: render_code_fence_def startswith_def)

theorem render_code_fence_dispatch_witness:
  "language (fence_token ''{name}'' ''arg'' [raw_text_token ''foo'']) = CHR ''{'' # ''name}''
   \<and> render_code_fence (example_env python_lexer) (default_renderer\<lparr>use_pygments := True\<rparr>)
        patched_globals (fence_token ''{name}'' ''arg'' [raw_text_token ''foo''])
      = render_directive (fence_token ''{name}'' ''arg'' [raw_text_token ''foo''])
   \<and> render_code_fence (example_env python_lexer) (default_renderer\<lparr>use_pygments := True\<rparr>)
        patched_globals (fence_token ''{name}'' ''arg'' [raw_text_token ''bar'', raw_text_token ''baz''])
      = render_directive (fence_token ''{name}'' ''arg'' [raw_text_token ''bar'', raw_text_token ''baz''])
   \<and> render_code_fence (example_env python_lexer) (default_renderer\<lparr>use_pygments := True\<rparr>)
        patched_globals (fence_token ''python'' [] [raw_text_token ''{x}''])
      = render_block_code (example_env python_lexer) (default_renderer\<lparr>use_pygments := True\<rparr>)
        patched_globals (fence_token ''python'' [] [raw_text_token ''{x}''])
   \<and> render_code_fence (example_env python_lexer) (default_renderer\<lparr>use_pygments := True\<rparr>)
        patched_globals (fence_token [] [] [raw_text_token ''{x}''])
      = render_block_code (example_env python_lexer) (default_renderer\<lparr>use_pygments := True\<rparr>)
        patched_globals (fence_token [] [] [raw_text_token ''{x}''])"
  using render_code_fence_dispatch [of "fence_token ''{name}'' ''arg'' [raw_text_token ''foo'']"
      "example_env python_lexer" "default_renderer\<lparr>use_pygments := True\<rparr>" patched_globals
      "fence_token ''{name}'' ''arg'' [raw_text_token ''bar'', raw_text_token ''baz'']"]
    render_code_fence_dispatch [of "fence_token ''python'' [] [raw_text_token ''{x}'']"
      "example_env python_lexer" "default_renderer\<lparr>use_pygments := True\<rparr>" patched_globals]
    render_code_fence_dispatch [of "fence_token [] [] [raw_text_token ''{x}'']"
      "example_env python_lexer" "default_renderer\<lparr>use_pygments := True\<rparr>" patched_globals]
  by (simp add: fence_token_def render_code_fence_def startswith_def)

section \<open>The directive shell\<close>

text \<open>
  Claim C2. A fenced block that is classified as a directive (its language tag starts with
  an opening brace) and has a child is rendered as the directive shell: the fixed
  \<open>div\<close> with the language tag as the directive name, the argument string, and the
  content of the first child inside \<open>pre\<close> and \<open>code\<close>. Name, arguments and content stand
  in the output as they are in the token; no escaping is applied to them.
\<close>

theorem render_directive_shell:
  assumes "language t = CHR ''{'' # rest" and "children t = c # cs"
  shows \<open>render_code_fence e r g t =
    Inr (''<div class="myst-directive">&#39;&#39;&#39;<span class="myst-dir-name">''
      @ language t @ ''</span>&nbsp\<newline><span class="myst-dir-args">'' @ arguments t
      @ ''</span>\<newline><span class="myst-dir-content"><pre><code>'' @ content c
      @ ''</code></pre></span>\<newline>&#39;&#39;&#39;</div>'')\<close>
  using assms by (simp add: render_code_fence_def startswith_def render_directive_def)

theorem render_directive_shell_witness:
  \<open>language (fence_token ''{name}'' ''arg'' [raw_text_token ''<b>foo</b> &amp;\<newline>''])
      = CHR ''{'' # ''name}''
   \<and> children (fence_token ''{name}'' ''arg'' [raw_text_token ''<b>foo</b> &amp;\<newline>''])
      = raw_text_token ''<b>foo</b> &amp;\<newline>'' # []
   \<and> render_code_fence (example_env no_lexer) default_renderer patched_globals
        (fence_token ''{name}'' ''arg'' [raw_text_token ''<b>foo</b> &amp;\<newline>'']) =
      Inr (''<div class="myst-directive">&#39;&#39;&#39;''
        @ ''<span class="myst-dir-name">{name}</span>&nbsp\<newline>''
        @ ''<span class="myst-dir-args">arg</span>\<newline>''
        @ ''<span class="myst-dir-content"><pre><code><b>foo</b> &amp;\<newline></code></pre></span>\<newline>''
        @ ''&#39;&#39;&#39;</div>'')\<close>
  using render_directive_shell [of
      "fence_token ''{name}'' ''arg'' [raw_text_token ''<b>foo</b> &amp;\<newline>'']"
      "''name}''" "raw_text_token ''<b>foo</b> &amp;\<newline>''" "[]"
      "example_env no_lexer" default_renderer patched_globals]
  by (simp add: fence_token_def raw_text_token_def)

section \<open>A language without a lexer\<close>



text \<open>
  The hypothesis on \<open>yaml\<close> is needed: the front-matter rule has no fallback of its own.
\<close>

lemma front_matter_raises_without_lexer:
  assumes "show_front_matter r" and "use_pygments r"
    and "highlight e (content t) ''yaml'' = Inl ClassNotFound"
  shows "render_front_matter e r g t = Inl AttributeError"
  using assms by (simp add: render_front_matter_def pygments_highlight_def)

section \<open>Front matter\<close>

text \<open>
  Claim C7. With front-matter display disabled the rule returns the empty string. With
  display enabled and highlighting disabled it returns the content, escaped by the
  inherited escaping function, inside \<open>pre\<close> and \<open>code class="language-yaml"\<close> (within the
  \<open>div\<close> of class \<open>myst-front-matter\<close>); the highlighting capability plays no part in
  it, so there is no highlighting wrapper.
\<close>

theorem render_front_matter_plain:
  \<open>(\<not> show_front_matter r \<longrightarrow> render_front_matter e r g t = Inr [])
   \<and> (show_front_matter r \<and> \<not> use_pygments r \<longrightarrow>
        render_front_matter e r g t =
          Inr (''<div class="myst-front-matter"><pre><code class="language-yaml">''
            @ escape_html (inherited e) (html_charref g) (content t)
            @ ''</code></pre></div>'')
        \<and> render_front_matter (e\<lparr>highlight := h\<rparr>) r g t = render_front_matter e r g t)\<close>
  by (simp add: render_front_matter_def)

theorem render_front_matter_plain_witness:
  \<open>render_front_matter (example_env python_lexer)
      (default_renderer\<lparr>show_front_matter := False\<rparr>)
      patched_globals (front_matter_token ''a: <1>\<newline>'') = Inr []
   \<and> render_front_matter (example_env python_lexer) default_renderer patched_globals
      (front_matter_token ''a: <1>\<newline>'') =
      Inr (''<div class="myst-front-matter"><pre><code class="language-yaml">''
        @ ''a: &lt;1&gt;\<newline></code></pre></div>'')\<close>
  using render_front_matter_plain [of "default_renderer\<lparr>show_front_matter := False\<rparr>"
      "example_env python_lexer" patched_globals "front_matter_token ''a: <1>\<newline>''"
      python_lexer]
    render_front_matter_plain [of default_renderer "example_env python_lexer"
      patched_globals "front_matter_token ''a: <1>\<newline>''" python_lexer]
  apply (simp add: default_renderer_def default_config_def HTMLRenderer_init_def example_env_def generic_renderer_def
      patched_globals_def stdlib_globals_def front_matter_token_def)
  apply (simp add: generic_escape_html_chars escape_char_def)
  done

section \<open>Math\<close>

text \<open>
  Claim C4, as amended. With the escaping of the generic renderer: a math token whose
  content is \<open>a=1\<close> is rendered as \<open>$a=1$\<close>. A token whose content starts with two
  dollar signs is rendered as its escaped content with no dollar sign added; that is the
  content itself whenever the content holds none of the four characters that escaping
  rewrites. Any other token is rendered as its escaped content in one pair of dollar
  signs.
\<close>

theorem render_math_cases:
  assumes "escape_html (inherited e) = generic_escape_html repl"
  shows \<open>(content t = ''a=1'' \<longrightarrow> render_math e g t = ''$a=1$'')
    \<and> (startswith (content t) ''$$'' \<longrightarrow>
          render_math e g t = escape_html (inherited e) (html_charref g) (content t)
          \<and> (set (content t) \<inter> set ''&<>"'' = {} \<longrightarrow> render_math e g t = content t))
    \<and> (\<not> startswith (content t) ''$$'' \<longrightarrow>
          render_math e g t =
            ''$'' @ escape_html (inherited e) (html_charref g) (content t) @ ''$'')\<close>
  using assms
  by (auto simp: render_math_def render_raw_text_def generic_escape_html_plain startswith_def)

theorem render_math_cases_witness:
  \<open>render_math (example_env no_lexer) patched_globals (math_token ''a=1'') = ''$a=1$''
   \<and> render_math (example_env no_lexer) patched_globals (math_token ''$$a'=1$$'') = ''$$a'=1$$''
   \<and> render_math (example_env no_lexer) patched_globals (math_token ''$$a<b$$'') = ''$$a&lt;b$$''
   \<and> render_math (example_env no_lexer) patched_globals (math_token ''$a<b$'') = ''$$a&lt;b$$''\<close>
  using render_math_cases [of "example_env no_lexer" replace_charref_basic "math_token ''a=1''" patched_globals]
   render_math_cases [of "example_env no_lexer" replace_charref_basic "math_token ''$$a'=1$$''" patched_globals]
   render_math_cases [of "example_env no_lexer" replace_charref_basic "math_token ''$$a<b$$''" patched_globals]
   render_math_cases [of "example_env no_lexer" replace_charref_basic "math_token ''$a<b$''" patched_globals]
  by (simp add: math_token_def startswith_def example_env_def generic_renderer_def
      generic_escape_html_chars escape_char_def)

theorem render_math_verbatim_counterexample:
  \<open>startswith (content (math_token ''$$a<b$$'')) ''$$''
   \<and> render_math (example_env no_lexer) patched_globals (math_token ''$$a<b$$'') = ''$$a&lt;b$$''
   \<and> render_math (example_env no_lexer) patched_globals (math_token ''$$a<b$$'')
       \<noteq> content (math_token ''$$a<b$$'')\<close>
  by (simp add: render_math_def render_raw_text_def math_token_def startswith_def
      example_env_def generic_renderer_def generic_escape_html_chars escape_char_def)

text \<open>
  Claim C5. For a math token whose content starts with two dollar signs, the math rule is
  a fixed point: applying the rule to a token that holds the output of the rule gives
  that output again. This rests on the escaping of the generic renderer, which decodes
  the references it writes and so is idempotent.
\<close>

theorem render_math_fixed_point:
  assumes "escape_html (inherited e) = generic_escape_html repl"
    and "decodes_written repl"
    and "startswith (content t) ''$$''"
    and "content t' = render_math e g t"
  shows "render_math e g t' = render_math e g t"
  using assms
  by (simp add: render_math_def render_raw_text_def generic_escape_html_idem
      generic_escape_html_dollars)

theorem render_math_fixed_point_witness:
  \<open>decodes_written replace_charref_basic
   \<and> startswith (content (math_token ''$$a'<b &amp; c$$'')) ''$$''
   \<and> render_math (example_env no_lexer) patched_globals (math_token ''$$a'<b &amp; c$$'')
       = ''$$a'&lt;b &amp; c$$''
   \<and> render_math (example_env no_lexer) patched_globals (math_token ''$$a'&lt;b &amp; c$$'')
       = ''$$a'&lt;b &amp; c$$''\<close>
  using render_math_fixed_point [of "example_env no_lexer" replace_charref_basic
      "math_token ''$$a'<b &amp; c$$''" "math_token ''$$a'&lt;b &amp; c$$''" patched_globals]
  by (simp add: decodes_written_basic math_token_def startswith_def render_math_def
      render_raw_text_def example_env_def generic_renderer_def generic_escape_html_chars
      escape_char_def patched_globals_def HTMLRenderer_init_def patched_pattern_def
      closed_run_def is_name_char_def is_digit_def replace_charref_basic_def)

section \<open>The standalone page\<close>

text \<open>
  Claim C3, as amended. With \<open>as_standalone\<close> set, the document rule fails when the
  render of the same tree under the same configuration without \<open>as_standalone\<close> fails,
  and otherwise returns the fixed page template (doctype, \<open>html lang="en"\<close>, head with
  the charset and the title \<open>Standalone HTML\<close>, one style block, then the body) filled
  with the resolved CSS and, as body, with that non-standalone render, mathjax script
  included. The CSS is \<open>myst_css\<close> when given and the bundled stylesheet otherwise,
  followed, when \<open>use_pygments\<close> is set, by \<open>pygments_css\<close> when given and the style
  rules of the capability otherwise. The page holds exactly one \<open><style>\<close> and one
  \<open><body>\<close> tag whenever neither the CSS nor the rendered body holds such a tag; CSS and
  body are inserted as they are.
\<close>

theorem render_document_standalone:
  assumes "as_standalone r"
  shows \<open>render_document e r g t =
      (case render_document e (r\<lparr>as_standalone := False\<rparr>) g t of
         Inl err \<Rightarrow> Inl err
       | Inr body \<Rightarrow>
           Inr (''<!DOCTYPE html>\<newline><html lang="en">\<newline>\<newline><head>\<newline>''
             @ ''<meta charset="utf-8">\<newline><title>Standalone HTML</title>\<newline><style>\<newline>''
             @ ((case myst_css r of None \<Rightarrow> get_syntax_css e | Some c \<Rightarrow> c)
                @ (if use_pygments r
                   then (case pygments_css r of None \<Rightarrow> get_pygments_css e | Some c \<Rightarrow> c)
                   else []))
             @ ''\<newline></style>\<newline></head>\<newline><body>\<newline>'' @ body
             @ ''\<newline></body>\<newline></html>\<newline>''))
    \<and> (render_document e (r\<lparr>as_standalone := False\<rparr>) g t = Inr body
         \<and> occurrences ''<style>'' body = 0 \<and> occurrences ''<body>'' body = 0
         \<and> occurrences ''<style>''
              ((case myst_css r of None \<Rightarrow> get_syntax_css e | Some c \<Rightarrow> c)
                @ (if use_pygments r
                   then (case pygments_css r of None \<Rightarrow> get_pygments_css e | Some c \<Rightarrow> c)
                   else [])) = 0
         \<and> occurrences ''<body>''
              ((case myst_css r of None \<Rightarrow> get_syntax_css e | Some c \<Rightarrow> c)
                @ (if use_pygments r
                   then (case pygments_css r of None \<Rightarrow> get_pygments_css e | Some c \<Rightarrow> c)
                   else [])) = 0
        \<longrightarrow> (\<exists>out. render_document e r g t = Inr out
              \<and> occurrences ''<style>'' out = 1 \<and> occurrences ''<body>'' out = 1))\<close>
proof -
  let ?css = "(case myst_css r of None \<Rightarrow> get_syntax_css e | Some c \<Rightarrow> c)
                @ (if use_pygments r
                   then (case pygments_css r of None \<Rightarrow> get_pygments_css e | Some c \<Rightarrow> c)
                   else [])"
  have methods: "render_method e (r\<lparr>as_standalone := False\<rparr>) g = render_method e r g"
    by (rule ext, rule ext, rule render_method_as_standalone)
  have page: "render_document e r g t =
      (case render_document e (r\<lparr>as_standalone := False\<rparr>) g t of
         Inl err \<Rightarrow> Inl err
       | Inr body \<Rightarrow> Inr (minimal_html_page body ?css ''Standalone HTML'' ''en''))"
    using assms by (simp add: render_document_def methods Let_def split: sum.splits)
  have first: ?thesis if "\<not> (\<exists>b. render_document e (r\<lparr>as_standalone := False\<rparr>) g t = Inr b)"
    using that page by (cases "render_document e (r\<lparr>as_standalone := False\<rparr>) g t") simp_all
  have second: ?thesis if b: "render_document e (r\<lparr>as_standalone := False\<rparr>) g t = Inr b" for b
  proof -
    have out: "render_document e r g t = Inr (minimal_html_page b ?css ''Standalone HTML'' ''en'')"
      using page b by simp
    have lit: "render_document e r g t =
      (case render_document e (r\<lparr>as_standalone := False\<rparr>) g t of
         Inl err \<Rightarrow> Inl err
       | Inr body \<Rightarrow>
           Inr (''<!DOCTYPE html>\<newline><html lang=\"en\">\<newline>\<newline><head>\<newline>''
             @ ''<meta charset=\"utf-8\">\<newline><title>Standalone HTML</title>\<newline><style>\<newline>''
             @ ?css
             @ ''\<newline></style>\<newline></head>\<newline><body>\<newline>'' @ body
             @ ''\<newline></body>\<newline></html>\<newline>''))"
      using out b by (simp add: minimal_html_page_def)
    show ?thesis
    proof (intro conjI impI)
      show "render_document e r g t =
      (case render_document e (r\<lparr>as_standalone := False\<rparr>) g t of
         Inl err \<Rightarrow> Inl err
       | Inr body \<Rightarrow>
           Inr (''<!DOCTYPE html>\<newline><html lang=\"en\">\<newline>\<newline><head>\<newline>''
             @ ''<meta charset=\"utf-8\">\<newline><title>Standalone HTML</title>\<newline><style>\<newline>''
             @ ?css
             @ ''\<newline></style>\<newline></head>\<newline><body>\<newline>'' @ body
             @ ''\<newline></body>\<newline></html>\<newline>''))"
        by (rule lit)
    next
      assume h: "render_document e (r\<lparr>as_standalone := False\<rparr>) g t = Inr body
         \<and> occurrences ''<style>'' body = 0 \<and> occurrences ''<body>'' body = 0
         \<and> occurrences ''<style>'' ?css = 0 \<and> occurrences ''<body>'' ?css = 0"
      then have "body = b" using b by simp
      with h have "occurrences ''<style>'' (minimal_html_page b ?css ''Standalone HTML'' ''en'') = 1"
        and "occurrences ''<body>'' (minimal_html_page b ?css ''Standalone HTML'' ''en'') = 1"
        by (simp_all only: standalone_page_tags)
      with out show "\<exists>out. render_document e r g t = Inr out
              \<and> occurrences ''<style>'' out = 1 \<and> occurrences ''<body>'' out = 1"
        by simp
    qed
  qed
  from first second show ?thesis by blast
qed


theorem render_document_standalone_witness:
  \<open>render_document (example_env python_lexer)
      (default_renderer\<lparr>as_standalone := False, add_mathjax := True, use_pygments := True,
         pygments_css := Some ''.highlight { background: #f8f8f8; }''\<rparr>)
      patched_globals
      (document_token [block_break_token ''a <1>'',
         fence_token ''{note}'' ''x'' [raw_text_token ''hi'']])
    = Inr (''<!-- myst-block-data a &lt;1&gt; -->\<newline><hr class="myst-block-break" />''
        @ ''\<newline><div class="myst-directive">&#39;&#39;&#39;''
        @ ''<span class="myst-dir-name">{note}</span>&nbsp\<newline>''
        @ ''<span class="myst-dir-args">x</span>\<newline>''
        @ ''<span class="myst-dir-content"><pre><code>hi</code></pre></span>\<newline>''
        @ ''&#39;&#39;&#39;</div>\<newline>'' @ mathjax_script)
   \<and> render_document (example_env python_lexer)
      (default_renderer\<lparr>as_standalone := True, add_mathjax := True, use_pygments := True,
         pygments_css := Some ''.highlight { background: #f8f8f8; }''\<rparr>)
      patched_globals
      (document_token [block_break_token ''a <1>'',
         fence_token ''{note}'' ''x'' [raw_text_token ''hi'']])
    = Inr (''<!DOCTYPE html>\<newline><html lang="en">\<newline>\<newline><head>\<newline>''
        @ ''<meta charset="utf-8">\<newline><title>Standalone HTML</title>\<newline><style>\<newline>''
        @ ''.myst-target { color: gray }.highlight { background: #f8f8f8; }''
        @ ''\<newline></style>\<newline></head>\<newline><body>\<newline>''
        @ ''<!-- myst-block-data a &lt;1&gt; -->\<newline><hr class="myst-block-break" />''
        @ ''\<newline><div class="myst-directive">&#39;&#39;&#39;''
        @ ''<span class="myst-dir-name">{note}</span>&nbsp\<newline>''
        @ ''<span class="myst-dir-args">x</span>\<newline>''
        @ ''<span class="myst-dir-content"><pre><code>hi</code></pre></span>\<newline>''
        @ ''&#39;&#39;&#39;</div>\<newline>'' @ mathjax_script
        @ ''\<newline></body>\<newline></html>\<newline>'')
   \<and> map_sum id (\<lambda>out. (occurrences ''<style>'' out, occurrences ''<body>'' out))
       (render_document (example_env python_lexer)
          (default_renderer\<lparr>as_standalone := True, add_mathjax := True, use_pygments := True,
             pygments_css := Some ''.highlight { background: #f8f8f8; }''\<rparr>)
          patched_globals
          (document_token [block_break_token ''a <1>'',
         fence_token ''{note}'' ''x'' [raw_text_token ''hi'']]))
     = Inr (1, 1)\<close>
  using render_document_standalone [of
      "default_renderer\<lparr>as_standalone := True, add_mathjax := True, use_pygments := True,
         pygments_css := Some ''.highlight { background: #f8f8f8; }''\<rparr>"
      "example_env python_lexer" patched_globals
      "document_token [block_break_token ''a <1>'',
         fence_token ''{note}'' ''x'' [raw_text_token ''hi'']]"]
  by (simp add: render_document_def example_defs rule_defs generic_defs startswith_def
      minimal_html_page_def mathjax_script_def)

theorem standalone_tags_counterexample:
  \<open>map_sum id (\<lambda>out. (occurrences ''<style>'' out, occurrences ''<body>'' out))
     (render_document (example_env no_lexer) (default_renderer\<lparr>as_standalone := True\<rparr>)
        patched_globals
        (document_token [fence_token ''{note}'' [] [raw_text_token ''<style><body>'']]))
   = Inr (2, 2)\<close>
  by (simp add: render_document_def example_defs rule_defs generic_defs startswith_def
      minimal_html_page_def)

section \<open>The first child\<close>

text \<open>
  Claim C9. The directive rule and the block-code rule on its highlighting path (a
  language is given and highlighting is on) read the content of the first child and
  nothing else of the children. With no child the access fails with \<open>IndexError\<close> and
  nothing is rendered. With at least one child the access cannot fail: the directive rule
  returns its shell around the first child's content, and the block-code rule returns
  what the capability makes of the first child's content, the inherited rule's result
  when the language is not found, or the capability's own failure. Further children
  change nothing.
\<close>

theorem first_child_only:
  \<open>render_directive (Token k l a ct rw tg n []) = Inl IndexError
   \<and> render_directive (Token k l a ct rw tg n (c # cs)) =
        Inr (''<div class="myst-directive">&#39;&#39;&#39;<span class="myst-dir-name">''
          @ l @ ''</span>&nbsp\<newline><span class="myst-dir-args">'' @ a
          @ ''</span>\<newline><span class="myst-dir-content"><pre><code>'' @ content c
          @ ''</code></pre></span>\<newline>&#39;&#39;&#39;</div>'')
   \<and> render_directive (Token k l a ct rw tg n (c # cs))
        = render_directive (Token k l a ct rw tg n [c])
   \<and> (l \<noteq> [] \<and> use_pygments r \<longrightarrow>
        render_block_code e r g (Token k l a ct rw tg n []) = Inl IndexError
        \<and> render_block_code e r g (Token k l a ct rw tg n (c # cs)) =
            (case highlight e (content c) l of
               Inr h \<Rightarrow>
                 Inr (''<div class="highlight-'' @ l @ ''">\<newline>'' @ rstrip h
                   @ ''\<newline></div>'')
             | Inl err \<Rightarrow>
                 if err = ClassNotFound
                 then super_render_block_code (inherited e) (html_charref g)
                        (Token k l a ct rw tg n (c # cs))
                 else Inl err))\<close>
  by (auto simp: render_directive_def render_block_code_def pygments_highlight_def
      split: sum.splits option.splits error.splits)

theorem first_child_only_witness:
  \<open>render_directive (Token ''CodeFence'' ''{note}'' [] [] [] [] [] []) = Inl IndexError
   \<and> render_directive (Token ''CodeFence'' ''{note}'' [] [] [] [] []
        [raw_text_token ''one'', raw_text_token ''two''])
      = render_directive (Token ''CodeFence'' ''{note}'' [] [] [] [] [] [raw_text_token ''one''])
   \<and> render_block_code (example_env python_lexer) (default_renderer\<lparr>use_pygments := True\<rparr>)
        patched_globals (Token ''CodeFence'' ''python'' [] [] [] [] [] []) = Inl IndexError
   \<and> render_block_code (example_env python_lexer) (default_renderer\<lparr>use_pygments := True\<rparr>)
        patched_globals (Token ''CodeFence'' ''python'' [] [] [] [] []
          [raw_text_token ''x < 1\<newline>'', raw_text_token ''two''])
      = Inr (''<div class="highlight-python">\<newline>''
          @ ''<div class="highlight"><pre>x &lt; 1\<newline></pre></div>\<newline></div>'')\<close>
  using first_child_only [of "''CodeFence''" "''{note}''" "[]" "[]" "[]" "[]" "[]"
      "raw_text_token ''one''" "[raw_text_token ''two'']"
      "default_renderer\<lparr>use_pygments := True\<rparr>" "example_env python_lexer" patched_globals]
    first_child_only [of "''CodeFence''" "''python''" "[]" "[]" "[]" "[]" "[]"
      "raw_text_token ''x < 1\<newline>''" "[raw_text_token ''two'']"
      "default_renderer\<lparr>use_pygments := True\<rparr>" "example_env python_lexer" patched_globals]
  by (simp add: default_renderer_def default_config_def HTMLRenderer_init_def example_env_def python_lexer_def raw_text_token_def
      render_directive_def render_block_code_def pygments_highlight_def
      html_escape_chars startswith_def rstrip_def is_space_def)





section \<open>Escaping\<close>




section \<open>Determinism\<close>





end
